theory Spec2Isabelle
  imports Main "HOL-Library.AList" "HOL-Library.Word"
begin

section \<open>Python values\<close>

text \<open>
  The two Python files verified here, \<^verbatim>\<open>f4pga/cache.py\<close> and \<^verbatim>\<open>f4pga/module.py\<close>,
  are dynamically typed: \<^verbatim>\<open>SymbiCache.hashes\<close> is whatever \<^verbatim>\<open>json.load\<close> returned, and
  the configuration values handed to a \<^verbatim>\<open>ModuleContext\<close> are arbitrary objects.
  Values are therefore a datatype.  A \<^verbatim>\<open>dict\<close> with string keys is an association
  list in insertion order; \<^verbatim>\<open>d[k] = v\<close> is \<open>AList.update\<close> (in place, or appended) and
  \<^verbatim>\<open>d.pop(k)\<close> is \<open>AList.delete\<close>.  Booleans and floating point numbers are left
  out: neither file creates one, and a cache file holds one only if something else wrote
  it.  Characters are code points below 256.
\<close>

datatype pyval =
    PNone
  | PInt int
  | PStr string
  | PList "pyval list"
  | PDict "(string \<times> pyval) list"

datatype error =
    AttributeError
  | TypeError
  | NameError string
  | OSError

text \<open>Truth value testing, as \<^verbatim>\<open>if x\<close> and \<^verbatim>\<open>not x\<close> do it.\<close>

fun truthy :: "pyval \<Rightarrow> bool" where
  "truthy PNone = False"
| "truthy (PInt i) = (i \<noteq> 0)"
| "truthy (PStr s) = (s \<noteq> [])"
| "truthy (PList xs) = (xs \<noteq> [])"
| "truthy (PDict d) = (d \<noteq> [])"

text \<open>\<^verbatim>\<open>d.get(k)\<close> on a dict: the value, or \<^verbatim>\<open>None\<close> for a missing key.\<close>

definition dict_get :: "(string \<times> pyval) list \<Rightarrow> string \<Rightarrow> pyval" where
  "dict_get d k = (case map_of d k of None \<Rightarrow> PNone | Some v \<Rightarrow> v)"

text \<open>\<^verbatim>\<open>x.get(k)\<close> on any value: only a dict has the method.\<close>

fun py_get :: "pyval \<Rightarrow> string \<Rightarrow> error + pyval" where
  "py_get (PDict d) k = Inr (dict_get d k)"
| "py_get _ k = Inl AttributeError"

subsection \<open>\<^verbatim>\<open>str\<close> and \<^verbatim>\<open>repr\<close>\<close>

definition digit_char :: "nat \<Rightarrow> char" where
  "digit_char n = ''0123456789'' ! n"

function str_nat :: "nat \<Rightarrow> string" where
  "str_nat n = (if n < 10 then [digit_char n] else str_nat (n div 10) @ [digit_char (n mod 10)])"
  by pat_completeness auto
termination
  by (relation "measure (\<lambda>n. n)") auto

declare str_nat.simps [simp del]

definition str_int :: "int \<Rightarrow> string" where
  "str_int i = (if i < 0 then CHR ''-'' # str_nat (nat (- i)) else str_nat (nat i))"

definition hex_char :: "nat \<Rightarrow> char" where
  "hex_char n = ''0123456789abcdef'' ! n"

definition py_printable :: "char \<Rightarrow> bool" where
  "py_printable c =
     (let n = (of_char c :: nat)
      in (32 \<le> n \<and> n < 127) \<or> (161 \<le> n \<and> n \<noteq> 173))"

definition repr_char :: "char \<Rightarrow> char \<Rightarrow> string" where
  "repr_char q c =
     (if c = q \<or> c = CHR 0x5C then [CHR 0x5C, c]
      else if c = CHR 0x09 then [CHR 0x5C, CHR ''t'']
      else if c = CHR 0x0A then [CHR 0x5C, CHR ''n'']
      else if c = CHR 0x0D then [CHR 0x5C, CHR ''r'']
      else if py_printable c then [c]
      else [CHR 0x5C, CHR ''x'', hex_char (of_char c div 16), hex_char (of_char c mod 16)])"

definition repr_str :: "string \<Rightarrow> string" where
  "repr_str s =
     (let q = (if CHR 0x27 \<in> set s \<and> CHR 0x22 \<notin> set s then CHR 0x22 else CHR 0x27)
      in q # concat (map (repr_char q) s) @ [q])"

fun join :: "string \<Rightarrow> string list \<Rightarrow> string" where
  "join sep [] = []"
| "join sep [x] = x"
| "join sep (x # y # ys) = x @ sep @ join sep (y # ys)"

fun repr :: "pyval \<Rightarrow> string" where
  "repr PNone = ''None''"
| "repr (PInt i) = str_int i"
| "repr (PStr s) = repr_str s"
| "repr (PList xs) = ''['' @ join '', '' (map repr xs) @ '']''"
| "repr (PDict d) =
     ''{'' @ join '', '' (map (\<lambda>kv. repr_str (fst kv) @ '': '' @ repr (snd kv)) d) @ ''}''"

text \<open>\<^verbatim>\<open>str(x)\<close>: a string is returned as it is, everything else through \<^verbatim>\<open>repr\<close>.\<close>

fun py_str :: "pyval \<Rightarrow> string" where
  "py_str (PStr s) = s"
| "py_str v = repr v"

subsection \<open>\<^verbatim>\<open>zlib.adler32\<close>\<close>

definition adler32_step :: "nat \<times> nat \<Rightarrow> 8 word \<Rightarrow> nat \<times> nat" where
  "adler32_step ab x =
     (let a = (fst ab + unat x) mod 65521; b = (snd ab + a) mod 65521 in (a, b))"

definition adler32 :: "8 word list \<Rightarrow> nat" where
  "adler32 bs = (let ab = foldl adler32_step (1, 0) bs in snd ab * 65536 + fst ab)"

section \<open>The staleness cache (\<^verbatim>\<open>f4pga/cache.py\<close>)\<close>

text \<open>
  What \<^verbatim>\<open>update\<close> reads from the file system at \<^verbatim>\<open>Path(path)\<close>: the three predicates
  it calls, and the bytes \<^verbatim>\<open>open('rb').read()\<close> returns (\<open>None\<close> when opening or reading
  raises, as for a dangling symbolic link).
\<close>

record fsnode =
  is_dir :: bool
  is_file :: bool
  is_symlink :: bool
  content :: "8 word list option"

text \<open>
  The cache file, seen through \<^verbatim>\<open>json.load\<close>: absent (\<^verbatim>\<open>FileNotFoundError\<close>), not JSON
  (\<^verbatim>\<open>JSONDecodeError\<close>), or a JSON document.  \<^verbatim>\<open>json.dump(v)\<close> writes the document that
  loads as \<open>v\<close>.
\<close>

datatype cachefile = NoFile | Malformed | Document pyval

type_synonym storage = "string \<Rightarrow> cachefile"

type_synonym status_table = "(string \<times> (string \<times> string) list) list"

text \<open>
  \<^verbatim>\<open>status\<close> is created empty by \<^verbatim>\<open>__init__\<close> and written by the class alone, with the
  literals \<^verbatim>\<open>'changed'\<close> and \<^verbatim>\<open>'same'\<close>: it is a dict of dicts of strings.
  \<^verbatim>\<open>hashes\<close> is assigned from the file by \<^verbatim>\<open>load\<close> and can be any value.
\<close>

record SymbiCache =
  hashes :: pyval
  status :: status_table
  cachefile_path :: string

text \<open>
  \<^verbatim>\<open>_try_pop_consumer\<close>, first half: the \<^verbatim>\<open>status\<close> table.  Both tests are truth
  value tests: an empty consumer table and an empty status string count as absent.
\<close>

definition pop_status :: "status_table \<Rightarrow> string \<Rightarrow> string \<Rightarrow> status_table" where
  "pop_status st path consumer =
     (case map_of st path of
        None \<Rightarrow> st
      | Some e \<Rightarrow>
          if e \<noteq> [] \<and> (case map_of e consumer of None \<Rightarrow> False | Some s \<Rightarrow> s \<noteq> [])
          then (let e' = AList.delete consumer e
                in if length e' = 0 then AList.delete path st else AList.update path e' st)
          else st)"

text \<open>
  \<^verbatim>\<open>_try_pop_consumer\<close>, second half: the \<^verbatim>\<open>hashes\<close> table.  \<^verbatim>\<open>self.hashes.get\<close> needs
  a dict, and so does \<^verbatim>\<open>self.hashes[path].get\<close>, reached when the first test is true.
  The second test is a truth value test on the stored fingerprint.
\<close>

definition pop_hash :: "pyval \<Rightarrow> string \<Rightarrow> string \<Rightarrow> error + pyval" where
  "pop_hash h path consumer =
     (case h of
        PDict d \<Rightarrow>
          if truthy (dict_get d path)
          then (case dict_get d path of
                  PDict e \<Rightarrow>
                    if truthy (dict_get e consumer)
                    then (let e' = AList.delete consumer e
                          in if length e' = 0 then Inr (PDict (AList.delete path d))
                             else Inr (PDict (AList.update path (PDict e') d)))
                    else Inr h
                | _ \<Rightarrow> Inl AttributeError)
          else Inr h
      | _ \<Rightarrow> Inl AttributeError)"

definition try_pop_consumer :: "SymbiCache \<Rightarrow> string \<Rightarrow> string \<Rightarrow> error + SymbiCache" where
  "try_pop_consumer c path consumer =
     (let st = pop_status (status c) path consumer
      in case pop_hash (hashes c) path consumer of
           Inl e \<Rightarrow> Inl e
         | Inr h \<Rightarrow> Inr (c\<lparr>hashes := h, status := st\<rparr>))"

text \<open>
  \<^verbatim>\<open>_try_push_consumer_hash\<close>: a falsy entry for the path is replaced by an empty dict,
  then the consumer's slot is assigned; item assignment with a string key needs a dict.
\<close>

definition try_push_consumer_hash :: "pyval \<Rightarrow> string \<Rightarrow> string \<Rightarrow> pyval \<Rightarrow> error + pyval" where
  "try_push_consumer_hash h path consumer hash =
     (case h of
        PDict d \<Rightarrow>
          (let d1 = (if \<not> truthy (dict_get d path) then AList.update path (PDict []) d else d)
           in case dict_get d1 path of
                PDict e \<Rightarrow> Inr (PDict (AList.update path (PDict (AList.update consumer hash e)) d1))
              | _ \<Rightarrow> Inl TypeError)
      | _ \<Rightarrow> Inl AttributeError)"

definition try_push_consumer_status :: "status_table \<Rightarrow> string \<Rightarrow> string \<Rightarrow> string \<Rightarrow> status_table" where
  "try_push_consumer_status st path consumer s =
     (let st1 = (case map_of st path of
                   None \<Rightarrow> AList.update path [] st
                 | Some e \<Rightarrow> if e = [] then AList.update path [] st else st)
      in case map_of st1 path of
           None \<Rightarrow> st1
         | Some e \<Rightarrow> AList.update path (AList.update consumer s e) st1)"

text \<open>
  Lines 76 to 79 of \<^verbatim>\<open>update\<close>: the integer \<^verbatim>\<open>0\<close> for a directory, otherwise the decimal
  string of the Adler-32 checksum of the file's bytes.
\<close>

definition fingerprint :: "fsnode \<Rightarrow> error + pyval" where
  "fingerprint node =
     (if \<not> is_dir node
      then (case content node of
              None \<Rightarrow> Inl OSError
            | Some bs \<Rightarrow> Inr (PStr (str_int (int (adler32 bs)))))
      else Inr (PInt 0))"

text \<open>
  \<^verbatim>\<open>update\<close>.  \<open>node\<close> is what the file system shows at \<^verbatim>\<open>Path(path)\<close> when the call is
  made.  The result is the returned boolean and the cache afterwards, or the exception.
\<close>

definition update :: "fsnode \<Rightarrow> SymbiCache \<Rightarrow> string \<Rightarrow> string \<Rightarrow> error + (bool \<times> SymbiCache)" where
  "update node c path consumer =
     (let isdir = is_dir node
      in if \<not> (is_file node \<or> is_symlink node \<or> isdir)
         then (case try_pop_consumer c path consumer of
                 Inl e \<Rightarrow> Inl e
               | Inr c' \<Rightarrow> Inr (True, c'))
         else (case fingerprint node of
                 Inl e \<Rightarrow> Inl e
               | Inr hash \<Rightarrow>
                  (case py_get (hashes c) path of
                     Inl e \<Rightarrow> Inl e
                   | Inr last_hashes \<Rightarrow>
                      (case (if last_hashes = PNone then Inr PNone
                             else py_get last_hashes consumer) of
                         Inl e \<Rightarrow> Inl e
                       | Inr last_hash \<Rightarrow>
                          if hash \<noteq> last_hash
                          then (let st = try_push_consumer_status (status c) path consumer ''changed''
                                in case try_push_consumer_hash (hashes c) path consumer hash of
                                     Inl e \<Rightarrow> Inl e
                                   | Inr h \<Rightarrow> Inr (True, c\<lparr>hashes := h, status := st\<rparr>))
                          else Inr (False,
                                 c\<lparr>status := try_push_consumer_status (status c) path consumer ''same''\<rparr>)))))"

definition get_status :: "SymbiCache \<Rightarrow> string \<Rightarrow> string \<Rightarrow> string" where
  "get_status c path consumer =
     (case map_of (status c) path of
        None \<Rightarrow> ''untracked''
      | Some statuses \<Rightarrow>
          if statuses = [] then ''untracked''
          else (case map_of statuses consumer of
                  None \<Rightarrow> ''untracked''
                | Some s \<Rightarrow> if s = [] then ''untracked'' else s))"

text \<open>
  \<^verbatim>\<open>load\<close> assigns \<^verbatim>\<open>hashes\<close> alone: the parsed document, or an empty dict after either
  exception (the printed warning is not modelled).
\<close>

definition load :: "storage \<Rightarrow> SymbiCache \<Rightarrow> SymbiCache" where
  "load disk c =
     c\<lparr>hashes := (case disk (cachefile_path c) of
                     Document v \<Rightarrow> v
                   | Malformed \<Rightarrow> PDict []
                   | NoFile \<Rightarrow> PDict [])\<rparr>"

text \<open>
  \<^verbatim>\<open>save\<close> passes \<^verbatim>\<open>str(self.hashes)\<close> to \<^verbatim>\<open>json_dump\<close>: the document written is a JSON
  string holding the text of the table.
\<close>

definition save :: "storage \<Rightarrow> SymbiCache \<Rightarrow> storage" where
  "save disk c = disk(cachefile_path c := Document (PStr (py_str (hashes c))))"

text \<open>
  \<^verbatim>\<open>__init__\<close>: an empty status table, then \<^verbatim>\<open>load\<close>, which is the first to assign
  \<^verbatim>\<open>hashes\<close> (the record needs a value there before).
\<close>

definition SymbiCache_init :: "storage \<Rightarrow> string \<Rightarrow> SymbiCache" where
  "SymbiCache_init disk path = load disk \<lparr>hashes = PNone, status = [], cachefile_path = path\<rparr>"

subsection \<open>Reading the two tables\<close>

text \<open>
  The fingerprint recorded for a pair, \<open>PNone\<close> when there is no record, and the status
  recorded for a pair.  A cache state in the sense of the specification is a table: a
  dict whose values are dicts.
\<close>

definition hash_at :: "pyval \<Rightarrow> string \<Rightarrow> string \<Rightarrow> pyval" where
  "hash_at h path consumer =
     (case h of
        PDict d \<Rightarrow> (case dict_get d path of PDict e \<Rightarrow> dict_get e consumer | _ \<Rightarrow> PNone)
      | _ \<Rightarrow> PNone)"

definition stored_hash :: "SymbiCache \<Rightarrow> string \<Rightarrow> string \<Rightarrow> pyval" where
  "stored_hash c path consumer = hash_at (hashes c) path consumer"

definition status_at :: "status_table \<Rightarrow> string \<Rightarrow> string \<Rightarrow> string option" where
  "status_at st path consumer =
     (case map_of st path of None \<Rightarrow> None | Some e \<Rightarrow> map_of e consumer)"

definition stored_status :: "SymbiCache \<Rightarrow> string \<Rightarrow> string \<Rightarrow> string option" where
  "stored_status c path consumer = status_at (status c) path consumer"

fun is_dict :: "pyval \<Rightarrow> bool" where
  "is_dict (PDict d) = True"
| "is_dict _ = False"

fun is_table :: "pyval \<Rightarrow> bool" where
  "is_table (PDict d) = list_all is_dict (map snd d)"
| "is_table _ = False"

text \<open>The test of line 73: the path is a file, a symbolic link or a directory.\<close>

definition node_exists :: "fsnode \<Rightarrow> bool" where
  "node_exists node = (is_file node \<or> is_symlink node \<or> is_dir node)"

subsection \<open>Sequences of calls\<close>

text \<open>
  A run of the cache is a sequence of calls on one object, each \<^verbatim>\<open>update\<close> with the
  state of the file system it meets.  An exception ends the run.
\<close>

datatype cache_op = OpUpdate fsnode string string | OpSave | OpLoad

fun step :: "cache_op \<Rightarrow> SymbiCache \<times> storage \<Rightarrow> error + SymbiCache \<times> storage" where
  "step (OpUpdate node path consumer) (c, disk) =
     (case update node c path consumer of
        Inl e \<Rightarrow> Inl e
      | Inr (r, c') \<Rightarrow> Inr (c', disk))"
| "step OpSave (c, disk) = Inr (c, save disk c)"
| "step OpLoad (c, disk) = Inr (load disk c, disk)"

fun run :: "cache_op list \<Rightarrow> SymbiCache \<times> storage \<Rightarrow> error + SymbiCache \<times> storage" where
  "run [] w = Inr w"
| "run (x # xs) w = (case step x w of Inl e \<Rightarrow> Inl e | Inr w' \<Rightarrow> run xs w')"

fun updates_pair :: "string \<Rightarrow> string \<Rightarrow> cache_op \<Rightarrow> bool" where
  "updates_pair p k (OpUpdate node path consumer) = (path = p \<and> consumer = k)"
| "updates_pair p k _ = False"


subsection \<open>Example inputs\<close>

definition no_files :: storage where
  "no_files = (\<lambda>path. NoFile)"

definition dir_node :: fsnode where
  "dir_node = \<lparr>is_dir = True, is_file = False, is_symlink = False, content = None\<rparr>"

definition gone_node :: fsnode where
  "gone_node = \<lparr>is_dir = False, is_file = False, is_symlink = False, content = None\<rparr>"

definition file_node :: "8 word list \<Rightarrow> fsnode" where
  "file_node bs = \<lparr>is_dir = False, is_file = True, is_symlink = False, content = Some bs\<rparr>"

definition dangling_link :: fsnode where
  "dangling_link = \<lparr>is_dir = False, is_file = False, is_symlink = True, content = None\<rparr>"

definition empty_cache :: SymbiCache where
  "empty_cache = \<lparr>hashes = PDict [], status = [], cachefile_path = ''.symbicache''\<rparr>"

definition tracked_file_cache :: SymbiCache where
  "tracked_file_cache =
     \<lparr>hashes = PDict [(''top.v'', PDict [(''synth'', PStr ''6422626'')])],
      status = [(''top.v'', [(''synth'', ''changed'')])],
      cachefile_path = ''.symbicache''\<rparr>"

definition tracked_dir_cache :: SymbiCache where
  "tracked_dir_cache =
     \<lparr>hashes = PDict [(''build'', PDict [(''synth'', PInt 0)])],
      status = [(''build'', [(''synth'', ''changed'')])],
      cachefile_path = ''.symbicache''\<rparr>"

definition shared_dir_cache :: SymbiCache where
  "shared_dir_cache =
     \<lparr>hashes = PDict [(''build'', PDict [(''synth'', PInt 0), (''place'', PInt 0)])],
      status = [(''build'', [(''synth'', ''changed''), (''place'', ''changed'')])],
      cachefile_path = ''.symbicache''\<rparr>"

section \<open>The invocation context (\<^verbatim>\<open>f4pga/module.py\<close>)\<close>

type_synonym dict = "(string \<times> pyval) list"

text \<open>
  A \<^verbatim>\<open>SimpleNamespace\<close> is its attribute dict; \<^verbatim>\<open>setattr\<close> is \<open>AList.update\<close>.
  The fields \<^verbatim>\<open>takes\<close>, \<^verbatim>\<open>produces\<close>, \<^verbatim>\<open>values\<close> and the name exist in both classes and carry a
  prefix here.  \<^verbatim>\<open>r_env\<close> is represented by its \<^verbatim>\<open>resolve\<close> method, a parameter of the
  functions below.
\<close>

record ModuleContext =
  ctx_module_name :: string
  ctx_takes :: dict
  ctx_produces :: dict
  ctx_values :: dict
  ctx_outputs :: dict
  share :: string
  bin :: string

record Module =
  mod_name :: string
  mod_takes :: "string list"
  mod_produces :: "string list"
  mod_values :: "string list"
  map_io :: "ModuleContext \<Rightarrow> error + dict"

text \<open>The raw configuration: \<^verbatim>\<open>config['takes']\<close>, \<^verbatim>\<open>config['values']\<close>, \<^verbatim>\<open>config['produces']\<close>.\<close>

record config =
  cfg_takes :: dict
  cfg_values :: dict
  cfg_produces :: dict

text \<open>
  Modelled from the spec: \<^verbatim>\<open>decompose_depname\<close> of \<^verbatim>\<open>f4pga.common\<close>, which is not
  among the sources.  It decodes a declared name into the bare name and a qualifier given
  by a trailing marker, anything else being required.  The qualifier strings are those
  \<^verbatim>\<open>inspector.py\<close> compares with, the markers those \<^verbatim>\<open>get_mod_metadata\<close> strips.
  The functions below take the decoder as a parameter; this one serves the examples.
\<close>

definition decompose_depname :: "string \<Rightarrow> string \<times> string" where
  "decompose_depname n =
     (if n \<noteq> [] \<and> last n = CHR ''?'' then (butlast n, ''maybe'')
      else if n \<noteq> [] \<and> last n = CHR ''!'' then (butlast n, ''demand'')
      else (n, ''req''))"

text \<open>
  \<^verbatim>\<open>_getreqmaybe\<close>.  \<^verbatim>\<open>module.py\<close> imports \<^verbatim>\<open>decompose_depname\<close> and \<^verbatim>\<open>ResolutionEnv\<close>
  only and defines no \<^verbatim>\<open>fatal\<close>: evaluating the call on line 103 raises
  \<^verbatim>\<open>NameError\<close> at the name, before the message is built.  \<^verbatim>\<open>setattr\<close> on line 104 is
  outside the \<^verbatim>\<open>if\<close> and runs for every name that did not raise.
\<close>

fun getreqmaybe ::
  "(string \<Rightarrow> string \<times> string) \<Rightarrow> (pyval \<Rightarrow> pyval) \<Rightarrow> dict \<Rightarrow> string list \<Rightarrow> dict \<Rightarrow> error + dict"
where
  "getreqmaybe dec resolve obj [] deps_cfg = Inr obj"
| "getreqmaybe dec resolve obj (n # deps) deps_cfg =
     (let name = fst (dec n); spec = snd (dec n); v = dict_get deps_cfg name
      in if v = PNone \<and> spec = ''req'' then Inl (NameError ''fatal'')
         else getreqmaybe dec resolve (AList.update name (resolve v) obj) deps deps_cfg)"

text \<open>\<^verbatim>\<open>for name, value in d.items(): setattr(ns, name, value)\<close> and \<^verbatim>\<open>outputs.update(d)\<close>.\<close>

definition dict_update :: "dict \<Rightarrow> dict \<Rightarrow> dict" where
  "dict_update d new = foldl (\<lambda>acc kv. AList.update (fst kv) (snd kv) acc) d new"

text \<open>\<^verbatim>\<open>ModuleContext.__init__\<close>.\<close>

definition ModuleContext_init ::
  "(string \<Rightarrow> string \<times> string) \<Rightarrow> (pyval \<Rightarrow> pyval) \<Rightarrow> Module \<Rightarrow> config \<Rightarrow> string \<Rightarrow> string
     \<Rightarrow> error + ModuleContext"
where
  "ModuleContext_init dec resolve module cfg share_dir bin_dir =
     (case getreqmaybe dec resolve [] (mod_takes module) (cfg_takes cfg) of
        Inl e \<Rightarrow> Inl e
      | Inr t \<Rightarrow>
         (case getreqmaybe dec resolve [] (mod_values module) (cfg_values cfg) of
            Inl e \<Rightarrow> Inl e
          | Inr v \<Rightarrow>
             (case resolve (PDict (cfg_produces cfg)) of
                PDict produces_resolved \<Rightarrow>
                  (let ctx = \<lparr>ctx_module_name = mod_name module, ctx_takes = t,
                              ctx_produces = dict_update [] produces_resolved,
                              ctx_values = v, ctx_outputs = [],
                              share = share_dir, bin = bin_dir\<rparr>
                   in case map_io module ctx of
                        Inl e \<Rightarrow> Inl e
                      | Inr outputs \<Rightarrow>
                         (case getreqmaybe dec resolve [] (mod_produces module)
                                 (dict_update outputs produces_resolved) of
                            Inl e \<Rightarrow> Inl e
                          | Inr out \<Rightarrow> Inr (ctx\<lparr>ctx_outputs := out\<rparr>)))
              | _ \<Rightarrow> Inl AttributeError)))"

text \<open>
  \<^verbatim>\<open>is_output_explicit\<close>: \<^verbatim>\<open>getattr\<close> without a default raises \<^verbatim>\<open>AttributeError\<close> for an
  attribute the namespace does not have.
\<close>

definition is_output_explicit :: "ModuleContext \<Rightarrow> string \<Rightarrow> error + bool" where
  "is_output_explicit ctx name =
     (case map_of (ctx_produces ctx) name of
        None \<Rightarrow> Inl AttributeError
      | Some v \<Rightarrow> Inr (v \<noteq> PNone))"

subsection \<open>Example inputs\<close>

definition no_resolution :: "pyval \<Rightarrow> pyval" where
  "no_resolution v = v"

definition default_log :: "ModuleContext \<Rightarrow> error + dict" where
  "default_log ctx = Inr [(''log'', PStr ''build/log'')]"

definition no_outputs :: "ModuleContext \<Rightarrow> error + dict" where
  "no_outputs ctx = Inr []"

definition failing_map_io :: "ModuleContext \<Rightarrow> error + dict" where
  "failing_map_io ctx = Inl OSError"

definition optional_input_module :: Module where
  "optional_input_module =
     \<lparr>mod_name = ''synth'', mod_takes = [''sources'', ''constraints?''], mod_produces = [],
      mod_values = [''part_name''], map_io = no_outputs\<rparr>"

definition partial_config :: config where
  "partial_config =
     \<lparr>cfg_takes = [(''sources'', PStr ''top.v'')], cfg_values = [(''part_name'', PStr ''xc7'')],
      cfg_produces = []\<rparr>"

definition partial_context :: ModuleContext where
  "partial_context =
     \<lparr>ctx_module_name = ''synth'',
      ctx_takes = [(''sources'', PStr ''top.v''), (''constraints'', PNone)],
      ctx_produces = [], ctx_values = [(''part_name'', PStr ''xc7'')], ctx_outputs = [],
      share = ''share'', bin = ''bin''\<rparr>"

section \<open>Facts about the two tables\<close>

lemma dict_get_update: "dict_get (AList.update k v d) k' = (if k' = k then v else dict_get d k')"
  by (simp add: dict_get_def update_conv')

lemma dict_get_delete: "dict_get (AList.delete k d) k' = (if k' = k then PNone else dict_get d k')"
  by (simp add: dict_get_def delete_conv')

lemma dict_get_Nil: "dict_get [] k = PNone"
  by (simp add: dict_get_def)

lemma dict_get_Cons: "dict_get ((k, v) # d) k' = (if k' = k then v else dict_get d k')"
  by (simp add: dict_get_def)

lemma delete_Nil_get: "AList.delete k e = [] \<Longrightarrow> k' \<noteq> k \<Longrightarrow> dict_get e k' = PNone"
  using dict_get_delete [of k e k'] by (simp add: dict_get_Nil)

lemma delete_Nil_map_of: "AList.delete k e = [] \<Longrightarrow> k' \<noteq> k \<Longrightarrow> map_of e k' = None"
  using delete_conv' [of k e] by (metis fun_upd_other map_of.simps(1))

lemma falsy_not_dict: "\<not> truthy v \<Longrightarrow> (case v of PDict e \<Rightarrow> dict_get e k | _ \<Rightarrow> PNone) = PNone"
  by (cases v) (simp_all add: dict_get_Nil)

lemma hash_at_pop:
  assumes "pop_hash h p k = Inr h'" and "p' \<noteq> p \<or> k' \<noteq> k"
  shows "hash_at h' p' k' = hash_at h p' k'"
  using assms
  by (auto simp: pop_hash_def hash_at_def dict_get_update dict_get_delete Let_def delete_Nil_get
      split: pyval.splits if_splits)

lemma hash_at_push:
  assumes "try_push_consumer_hash h p k v = Inr h'"
  shows "hash_at h' p' k' = (if p' = p \<and> k' = k then v else hash_at h p' k')"
  using assms falsy_not_dict
  by (auto simp: try_push_consumer_hash_def hash_at_def dict_get_update dict_get_Nil dict_get_Cons Let_def
      split: pyval.splits if_splits)

lemma status_at_push:
  "status_at (try_push_consumer_status st p k s) p' k' =
     (if p' = p \<and> k' = k then Some s else status_at st p' k')"
  by (auto simp: try_push_consumer_status_def status_at_def update_conv' Let_def
      split: option.splits if_splits)

lemma status_at_pop_other:
  "p' \<noteq> p \<or> k' \<noteq> k \<Longrightarrow> status_at (pop_status st p k) p' k' = status_at st p' k'"
  by (auto simp: pop_status_def status_at_def update_conv' delete_conv' Let_def delete_Nil_map_of
      split: option.splits if_splits)

lemma status_at_pop_same:
  "status_at (pop_status st p k) p k = None \<or> status_at (pop_status st p k) p k = Some []"
  by (auto simp: pop_status_def status_at_def update_conv' delete_conv' Let_def
      split: option.splits if_splits)

lemma get_status_at:
  "get_status c p k = (case status_at (status c) p k of None \<Rightarrow> ''untracked''
                        | Some s \<Rightarrow> if s = [] then ''untracked'' else s)"
  by (auto simp: get_status_def status_at_def split: option.splits)

lemma list_all_update:
  "list_all P (map snd d) \<Longrightarrow> P v \<Longrightarrow> list_all P (map snd (AList.update k v d))"
  by (induction d) auto

lemma list_all_delete:
  "list_all P (map snd d) \<Longrightarrow> list_all P (map snd (AList.delete k d))"
  by (induction d) auto

lemma table_get:
  "list_all is_dict (map snd d) \<Longrightarrow> dict_get d p = PNone \<or> is_dict (dict_get d p)"
  by (induction d) (auto simp: dict_get_def)

lemma is_dict_iff: "is_dict v = (\<exists>e. v = PDict e)"
  by (cases v) simp_all

lemma is_table_pop:
  assumes "is_table h"
  shows "\<exists>h'. pop_hash h p k = Inr h' \<and> is_table h'"
proof -
  from assms obtain d where h: "h = PDict d" and d: "list_all is_dict (map snd d)"
    by (cases h) simp_all
  from table_get [OF d, of p] consider "dict_get d p = PNone" | e where "dict_get d p = PDict e"
    by (auto simp: is_dict_iff)
  then show ?thesis
  proof cases
    case 1
    then show ?thesis using assms by (simp add: pop_hash_def h)
  next
    case 2
    then show ?thesis using d
      by (simp add: pop_hash_def h Let_def list_all_update list_all_delete)
  qed
qed



section \<open>What one call of \<^verbatim>\<open>update\<close> does\<close>

lemma update_cases:
  assumes "update node c p k = Inr (r, c')"
  shows "(\<not> node_exists node \<and> r \<and> status c' = pop_status (status c) p k
            \<and> pop_hash (hashes c) p k = Inr (hashes c'))
       \<or> (node_exists node \<and> r \<and> status c' = try_push_consumer_status (status c) p k ''changed''
            \<and> (\<exists>h. fingerprint node = Inr h \<and> h \<noteq> hash_at (hashes c) p k
                  \<and> try_push_consumer_hash (hashes c) p k h = Inr (hashes c')))
       \<or> (node_exists node \<and> \<not> r \<and> status c' = try_push_consumer_status (status c) p k ''same''
            \<and> hashes c' = hashes c \<and> fingerprint node = Inr (hash_at (hashes c) p k))"
proof (cases "node_exists node")
  case False
  with assms show ?thesis
    by (auto simp: update_def node_exists_def try_pop_consumer_def Let_def split: sum.splits)
next
  case True
  from assms True obtain h lhs lh where fp: "fingerprint node = Inr h"
    and lhs: "py_get (hashes c) p = Inr lhs"
    and lh: "(if lhs = PNone then Inr PNone else py_get lhs k) = Inr lh"
    by (auto simp: update_def node_exists_def Let_def split: sum.splits)
  have lh_eq: "lh = hash_at (hashes c) p k"
    using lhs lh by (cases "hashes c"; cases lhs) (auto simp: hash_at_def split: if_splits)
  show ?thesis
  proof (cases "h \<noteq> lh")
    case neq: True
    with assms True fp lhs lh lh_eq show ?thesis
      by (auto simp: update_def node_exists_def Let_def split: sum.splits)
  next
    case eq: False
    with assms True fp lhs lh lh_eq show ?thesis
      by (auto simp: update_def node_exists_def Let_def split: sum.splits)
  qed
qed

lemma update_frame:
  assumes "update node c p k = Inr (r, c')" and "p' \<noteq> p \<or> k' \<noteq> k"
  shows "stored_hash c' p' k' = stored_hash c p' k'"
    and "stored_status c' p' k' = stored_status c p' k'"
proof -
  from update_cases [OF assms(1)] assms(2)
  show "stored_hash c' p' k' = stored_hash c p' k'"
    unfolding stored_hash_def
    by (elim disjE conjE exE) (simp_all add: hash_at_pop hash_at_push)
  from update_cases [OF assms(1)] assms(2)
  show "stored_status c' p' k' = stored_status c p' k'"
    unfolding stored_status_def
    by (elim disjE conjE exE) (simp_all add: status_at_pop_other status_at_push)
qed

lemma get_status_stored:
  "get_status c p k = (case stored_status c p k of None \<Rightarrow> ''untracked''
                        | Some s \<Rightarrow> if s = [] then ''untracked'' else s)"
  by (simp add: get_status_at stored_status_def)

lemma update_gone:
  assumes "\<not> node_exists node" and "update node c p k = Inr (r, c')"
  shows "r" and "get_status c' p k = ''untracked''" and "stored_status c' p k \<noteq> Some ''changed''"
proof -
  from update_cases [OF assms(2)] assms(1)
  have r: r and st: "status c' = pop_status (status c) p k" by auto
  show r by (rule r)
  from status_at_pop_same [of "status c" p k] st
  have "stored_status c' p k = None \<or> stored_status c' p k = Some []"
    by (simp add: stored_status_def)
  then show "get_status c' p k = ''untracked''" and "stored_status c' p k \<noteq> Some ''changed''"
    by (auto simp: get_status_stored)
qed

lemma update_gone_total:
  assumes "\<not> node_exists node" and "is_table (hashes c)"
  shows "\<exists>c'. update node c p k = Inr (True, c') \<and> is_table (hashes c')"
proof -
  from is_table_pop [OF assms(2), of p k] obtain h' where
    "pop_hash (hashes c) p k = Inr h'" and "is_table h'" by blast
  with assms(1) show ?thesis
    by (simp add: update_def node_exists_def try_pop_consumer_def Let_def)
qed


lemma step_status_frame:
  assumes "step x (c, disk) = Inr (c', disk')" and "\<not> updates_pair p k x"
  shows "stored_status c' p k = stored_status c p k"
proof (cases x)
  case (OpUpdate node p' k')
  with assms(1) obtain r where "update node c p' k' = Inr (r, c')"
    by (auto split: sum.splits)
  moreover from assms(2) OpUpdate have "p \<noteq> p' \<or> k \<noteq> k'" by auto
  ultimately show ?thesis by (rule update_frame(2))
next
  case OpSave
  with assms(1) show ?thesis by simp
next
  case OpLoad
  with assms(1) show ?thesis by (auto simp: load_def stored_status_def)
qed

lemma run_status_frame:
  "run ops (c, disk) = Inr (c', disk') \<Longrightarrow> \<forall>x\<in>set ops. \<not> updates_pair p k x
     \<Longrightarrow> stored_status c' p k = stored_status c p k"
proof (induction ops arbitrary: c disk)
  case Nil
  then show ?case by simp
next
  case (Cons x xs)
  from Cons.prems(1) obtain c1 d1 where s: "step x (c, disk) = Inr (c1, d1)"
    and r: "run xs (c1, d1) = Inr (c', disk')"
    by (auto split: sum.splits)
  from Cons.IH [OF r] Cons.prems(2) have "stored_status c' p k = stored_status c1 p k" by simp
  with step_status_frame [OF s] Cons.prems(2) show ?case by simp
qed




lemma fingerprint_one_byte: "fingerprint (file_node [97]) = Inr (PStr ''6422626'')"
proof -
  have a: "adler32 [97] = 6422626" by (simp add: adler32_def adler32_step_def)
  have s: "str_int 6422626 = ''6422626''"
    by (simp add: str_int_def str_nat.simps digit_char_def)
  show ?thesis by (simp add: fingerprint_def file_node_def a s)
qed

lemmas update_eval = update_def try_pop_consumer_def pop_status_def pop_hash_def
  try_push_consumer_hash_def try_push_consumer_status_def dict_get_def Let_def
  dir_node_def gone_node_def empty_cache_def tracked_file_cache_def tracked_dir_cache_def
  shared_dir_cache_def

lemma get_status_init: "get_status (SymbiCache_init disk f) p k = ''untracked''"
  by (simp add: SymbiCache_init_def load_def get_status_def)

lemma py_str_tracked_file:
  "py_str (PDict [(''top.v'', PDict [(''synth'', PStr ''6422626'')])]) =
     [CHR ''{'', CHR 0x27, CHR ''t'', CHR ''o'', CHR ''p'', CHR ''.'', CHR ''v'', CHR 0x27,
      CHR '':'', CHR '' '', CHR ''{'', CHR 0x27, CHR ''s'', CHR ''y'', CHR ''n'', CHR ''t'',
      CHR ''h'', CHR 0x27, CHR '':'', CHR '' '', CHR 0x27, CHR ''6'', CHR ''4'', CHR ''2'',
      CHR ''2'', CHR ''6'', CHR ''2'', CHR ''6'', CHR 0x27, CHR ''}'', CHR ''}'']"
  by (simp add: repr_str_def repr_char_def py_printable_def Let_def)

lemma getreqmaybe_keeps:
  "getreqmaybe dec res obj deps cfg = Inr obj'
     \<Longrightarrow> map_of obj name = Some (res (dict_get cfg name))
     \<Longrightarrow> map_of obj' name = Some (res (dict_get cfg name))"
proof (induction deps arbitrary: obj)
  case Nil
  then show ?case by simp
next
  case (Cons n deps)
  let ?obj1 = "AList.update (fst (dec n)) (res (dict_get cfg (fst (dec n)))) obj"
  from Cons.prems(1) have r: "getreqmaybe dec res ?obj1 deps cfg = Inr obj'"
    by (simp add: Let_def split: if_splits)
  from Cons.prems(2) have "map_of ?obj1 name = Some (res (dict_get cfg name))"
    by (simp add: update_conv')
  from Cons.IH [OF r this] show ?case .
qed

lemma getreqmaybe_binds:
  "getreqmaybe dec res obj deps cfg = Inr obj' \<Longrightarrow> n \<in> set deps
     \<Longrightarrow> map_of obj' (fst (dec n)) = Some (res (dict_get cfg (fst (dec n))))"
proof (induction deps arbitrary: obj)
  case Nil
  then show ?case by simp
next
  case (Cons m deps)
  let ?obj1 = "AList.update (fst (dec m)) (res (dict_get cfg (fst (dec m)))) obj"
  from Cons.prems(1) have r: "getreqmaybe dec res ?obj1 deps cfg = Inr obj'"
    by (simp add: Let_def split: if_splits)
  show ?case
  proof (cases "n = m")
    case True
    have "map_of ?obj1 (fst (dec n)) = Some (res (dict_get cfg (fst (dec n))))"
      by (simp add: True update_conv')
    from getreqmaybe_keeps [OF r this] show ?thesis .
  next
    case False
    with Cons.prems(2) have "n \<in> set deps" by simp
    from Cons.IH [OF r this] show ?thesis .
  qed
qed

lemma ModuleContext_init_parts:
  assumes "ModuleContext_init dec res m cfg sh bn = Inr ctx"
  shows "getreqmaybe dec res [] (mod_takes m) (cfg_takes cfg) = Inr (ctx_takes ctx)"
    and "getreqmaybe dec res [] (mod_values m) (cfg_values cfg) = Inr (ctx_values ctx)"
  using assms
  by (auto simp: ModuleContext_init_def Let_def split: sum.splits pyval.splits)

text \<open>
  A symbolic link whose target is gone passes the test of line 73 and cannot be opened:
  \<^verbatim>\<open>update\<close> raises, whatever the cache holds.
\<close>

lemma update_dangling_link: "update dangling_link c p k = Inl OSError"
  by (simp add: update_def dangling_link_def fingerprint_def)

section \<open>The claims\<close>

text \<open>
  Claim C1: \<^verbatim>\<open>save\<close> followed by \<^verbatim>\<open>load\<close> on the same file restores every pair's
  fingerprint and status, and \<^verbatim>\<open>load\<close> accepts what \<^verbatim>\<open>save\<close> wrote.  It fails on a
  cache that tracks one file for one consumer.  \<^verbatim>\<open>save\<close> writes the text of the table as
  one JSON string, so \<^verbatim>\<open>load\<close> assigns a string to \<^verbatim>\<open>hashes\<close>: the pair has no
  fingerprint any more and the next \<^verbatim>\<open>update\<close> raises \<^verbatim>\<open>AttributeError\<close>.  The status
  is never written, so a cache constructed on the saved file reports \<^verbatim>\<open>'untracked'\<close>
  where the saved one reported \<^verbatim>\<open>'changed'\<close>.
\<close>

theorem C1_counterexample:
  "stored_hash tracked_file_cache ''top.v'' ''synth'' = PStr ''6422626''
   \<and> hashes (load (save no_files tracked_file_cache) tracked_file_cache) =
       PStr [CHR ''{'', CHR 0x27, CHR ''t'', CHR ''o'', CHR ''p'', CHR ''.'', CHR ''v'', CHR 0x27,
         CHR '':'', CHR '' '', CHR ''{'', CHR 0x27, CHR ''s'', CHR ''y'', CHR ''n'', CHR ''t'',
         CHR ''h'', CHR 0x27, CHR '':'', CHR '' '', CHR 0x27, CHR ''6'', CHR ''4'', CHR ''2'',
         CHR ''2'', CHR ''6'', CHR ''2'', CHR ''6'', CHR 0x27, CHR ''}'', CHR ''}'']
   \<and> stored_hash (load (save no_files tracked_file_cache) tracked_file_cache) ''top.v'' ''synth''
       = PNone
   \<and> update (file_node [97]) (load (save no_files tracked_file_cache) tracked_file_cache)
         ''top.v'' ''synth'' = Inl AttributeError
   \<and> get_status tracked_file_cache ''top.v'' ''synth'' = ''changed''
   \<and> get_status (SymbiCache_init (save no_files tracked_file_cache) ''.symbicache'')
         ''top.v'' ''synth'' = ''untracked''"
  using py_str_tracked_file fingerprint_one_byte
  by (simp add: tracked_file_cache_def load_def save_def stored_hash_def hash_at_def dict_get_def
      update_def file_node_def get_status_def SymbiCache_init_def)

text \<open>
  Claim C1, amended: \<^verbatim>\<open>save\<close> writes a JSON document that depends on the fingerprint table
  alone; \<^verbatim>\<open>load\<close> on the written file takes neither exception branch and assigns
  \<^verbatim>\<open>hashes\<close> only, leaving the status table of the object as it was; a cache constructed
  on the written file starts with an empty status table and reports \<^verbatim>\<open>'untracked'\<close> for
  every pair.  What \<^verbatim>\<open>hashes\<close> holds after the reload is left open.
\<close>

theorem C1_save_then_load:
  "save disk c (cachefile_path c) \<noteq> NoFile
   \<and> save disk c (cachefile_path c) \<noteq> Malformed
   \<and> save disk (c\<lparr>status := st\<rparr>) = save disk c
   \<and> status (load (save disk c) c) = status c
   \<and> get_status (SymbiCache_init (save disk c) (cachefile_path c)) p k = ''untracked''"
  by (simp add: save_def load_def get_status_init)

text \<open>
  Claim C2: a name declared required and absent makes the construction fail with a fatal
  error naming the stage and the dependency, and for a missing input before \<^verbatim>\<open>map_io\<close> is
  called.  The construction does fail, and for a missing input the result is the same
  whatever \<^verbatim>\<open>map_io\<close> would do, but the failure is the \<^verbatim>\<open>NameError\<close> of the unbound name
  \<^verbatim>\<open>fatal\<close>, which carries neither the stage name nor the dependency name.  A missing
  required output ends the same way.
\<close>

theorem C2_missing_required_input_raises_NameError:
  "ModuleContext_init decompose_depname no_resolution
     \<lparr>mod_name = ''synth'', mod_takes = [''sources''], mod_produces = [''log''],
      mod_values = [], map_io = default_log\<rparr>
     \<lparr>cfg_takes = [], cfg_values = [], cfg_produces = []\<rparr> ''share'' ''bin''
   = Inl (NameError ''fatal'')
   \<and> ModuleContext_init decompose_depname no_resolution
     \<lparr>mod_name = ''synth'', mod_takes = [''sources''], mod_produces = [''log''],
      mod_values = [], map_io = failing_map_io\<rparr>
     \<lparr>cfg_takes = [], cfg_values = [], cfg_produces = []\<rparr> ''share'' ''bin''
   = Inl (NameError ''fatal'')
   \<and> ModuleContext_init decompose_depname no_resolution
     \<lparr>mod_name = ''synth'', mod_takes = [], mod_produces = [''bitstream''],
      mod_values = [], map_io = no_outputs\<rparr>
     \<lparr>cfg_takes = [], cfg_values = [], cfg_produces = []\<rparr> ''share'' ''bin''
   = Inl (NameError ''fatal'')"
  by (simp add: ModuleContext_init_def decompose_depname_def dict_get_def Let_def
      no_resolution_def dict_update_def no_outputs_def)

text \<open>
  Claim C3: an optional input or value that is absent from the configuration is not
  bound, the namespace has no attribute of that name.  A stage declares the optional input
  \<^verbatim>\<open>constraints?\<close> and the configuration gives no \<^verbatim>\<open>constraints\<close>: the namespace
  \<^verbatim>\<open>takes\<close> of the context has the attribute \<^verbatim>\<open>constraints\<close>, bound to \<^verbatim>\<open>None\<close>.
\<close>

theorem C3_counterexample:
  "ModuleContext_init decompose_depname no_resolution
     \<lparr>mod_name = ''synth'', mod_takes = [''sources'', ''constraints?''], mod_produces = [],
      mod_values = [''part_name''], map_io = no_outputs\<rparr>
     \<lparr>cfg_takes = [(''sources'', PStr ''top.v'')], cfg_values = [(''part_name'', PStr ''xc7'')],
      cfg_produces = []\<rparr>
     ''share'' ''bin''
   = Inr \<lparr>ctx_module_name = ''synth'',
          ctx_takes = [(''sources'', PStr ''top.v''), (''constraints'', PNone)],
          ctx_produces = [], ctx_values = [(''part_name'', PStr ''xc7'')], ctx_outputs = [],
          share = ''share'', bin = ''bin''\<rparr>
   \<and> decompose_depname ''constraints?'' = (''constraints'', ''maybe'')
   \<and> map_of [(''sources'', PStr ''top.v'')] ''constraints'' = None
   \<and> map_of [(''sources'', PStr ''top.v''), (''constraints'', PNone)] ''constraints'' = Some PNone"
  by (simp add: ModuleContext_init_def decompose_depname_def dict_get_def no_resolution_def
      dict_update_def no_outputs_def Let_def)

text \<open>
  Claim C3, amended: when the construction succeeds, every declared input and every
  declared value is bound, whatever its qualifier, to the Resolution Scope's result for
  \<^verbatim>\<open>deps_cfg.get(name)\<close>: a present one to its resolved value, an absent optional one
  to the resolution of \<^verbatim>\<open>None\<close>.
\<close>

theorem C3_declared_names_are_bound:
  assumes "ModuleContext_init dec resolve m cfg share_dir bin_dir = Inr ctx"
  shows "(\<forall>n\<in>set (mod_takes m).
            map_of (ctx_takes ctx) (fst (dec n))
              = Some (resolve (dict_get (cfg_takes cfg) (fst (dec n)))))
       \<and> (\<forall>n\<in>set (mod_values m).
            map_of (ctx_values ctx) (fst (dec n))
              = Some (resolve (dict_get (cfg_values cfg) (fst (dec n)))))"
  using ModuleContext_init_parts [OF assms] by (auto intro: getreqmaybe_binds)

text \<open>The stage of the counterexample: one input present, one optional input absent.\<close>

theorem C3_witness:
  "ModuleContext_init decompose_depname no_resolution optional_input_module partial_config
      ''share'' ''bin'' = Inr partial_context
   \<and> ''constraints?'' \<in> set (mod_takes optional_input_module)
   \<and> map_of (cfg_takes partial_config) ''constraints'' = None
   \<and> map_of (ctx_takes partial_context) ''constraints'' = Some (no_resolution PNone)
   \<and> ''part_name'' \<in> set (mod_values optional_input_module)
   \<and> map_of (ctx_values partial_context) ''part_name'' = Some (no_resolution (PStr ''xc7''))"
proof -
  have i: "ModuleContext_init decompose_depname no_resolution optional_input_module
             partial_config ''share'' ''bin'' = Inr partial_context"
    by (simp add: ModuleContext_init_def decompose_depname_def dict_get_def no_resolution_def
        dict_update_def no_outputs_def Let_def optional_input_module_def partial_config_def
        partial_context_def)
  have t: "''constraints?'' \<in> set (mod_takes optional_input_module)"
    by (simp add: optional_input_module_def)
  have v: "''part_name'' \<in> set (mod_values optional_input_module)"
    by (simp add: optional_input_module_def)
  have a: "map_of (cfg_takes partial_config) ''constraints'' = None"
    by (simp add: partial_config_def)
  from C3_declared_names_are_bound [OF i, THEN conjunct1, rule_format, OF t]
  have b: "map_of (ctx_takes partial_context) ''constraints'' = Some (no_resolution PNone)"
    by (simp add: decompose_depname_def dict_get_def partial_config_def)
  from C3_declared_names_are_bound [OF i, THEN conjunct2, rule_format, OF v]
  have c: "map_of (ctx_values partial_context) ''part_name'' = Some (no_resolution (PStr ''xc7''))"
    by (simp add: decompose_depname_def dict_get_def partial_config_def)
  from i t a b v c show ?thesis by (intro conjI)
qed



text \<open>
  Claim C5: for a path that is no file, symbolic link or directory, \<^verbatim>\<open>update\<close> removes the
  consumer's entry for the path from the cache and returns true.  The test that guards the
  removal from \<^verbatim>\<open>hashes\<close> is a truth value test on the stored fingerprint, and the
  fingerprint of a directory is the integer \<^verbatim>\<open>0\<close>: for a directory that was tracked and
  then deleted the call returns true and clears the status, and the fingerprint entry
  stays.
\<close>

theorem C5_vanished_directory_keeps_fingerprint:
  "update gone_node
      \<lparr>hashes = PDict [(''build'', PDict [(''synth'', PInt 0)])],
       status = [(''build'', [(''synth'', ''changed'')])],
       cachefile_path = ''.symbicache''\<rparr>
      ''build'' ''synth''
   = Inr (True,
      \<lparr>hashes = PDict [(''build'', PDict [(''synth'', PInt 0)])],
       status = [],
       cachefile_path = ''.symbicache''\<rparr>)"
  by (simp add: update_def gone_node_def try_pop_consumer_def pop_status_def pop_hash_def
      dict_get_def)

text \<open>
  Claim C6: before any \<^verbatim>\<open>update\<close> of a pair \<^verbatim>\<open>get_status\<close> returns \<^verbatim>\<open>'untracked'\<close>, and
  after an \<^verbatim>\<open>update\<close> of the pair it returns the last status \<^verbatim>\<open>update\<close> recorded.  The
  second half fails when the path vanishes: the first \<^verbatim>\<open>update\<close> records \<^verbatim>\<open>'changed'\<close>,
  the second one finds no file and drops the record, and \<^verbatim>\<open>get_status\<close> returns
  \<^verbatim>\<open>'untracked'\<close> although the last status recorded for the pair was \<^verbatim>\<open>'changed'\<close>.
\<close>

theorem C6_counterexample:
  "run [OpUpdate (file_node [97]) ''top.v'' ''synth'']
       (SymbiCache_init no_files ''.symbicache'', no_files)
     = Inr (tracked_file_cache, no_files)
   \<and> get_status tracked_file_cache ''top.v'' ''synth'' = ''changed''
   \<and> run [OpUpdate (file_node [97]) ''top.v'' ''synth'', OpUpdate gone_node ''top.v'' ''synth'']
       (SymbiCache_init no_files ''.symbicache'', no_files)
     = Inr (empty_cache, no_files)
   \<and> get_status empty_cache ''top.v'' ''synth'' = ''untracked''
   \<and> get_status empty_cache ''top.v'' ''synth'' \<noteq> ''changed''"
  using fingerprint_one_byte
  by (simp add: update_eval file_node_def SymbiCache_init_def load_def no_files_def get_status_def)

text \<open>
  Claim C6, amended: in a cache that was constructed and then used by any calls other than
  an \<^verbatim>\<open>update\<close> of the pair, \<^verbatim>\<open>get_status\<close> returns \<^verbatim>\<open>'untracked'\<close>.  After an
  \<^verbatim>\<open>update\<close> of the pair, and any later calls other than an \<^verbatim>\<open>update\<close> of the pair, it
  returns the status that \<^verbatim>\<open>update\<close> recorded when it found the path (\<^verbatim>\<open>'changed'\<close> if it
  returned true, \<^verbatim>\<open>'same'\<close> if it returned false), and \<^verbatim>\<open>'untracked'\<close> when it found no
  path.  \<^verbatim>\<open>get_status\<close> itself is a total function of the status table.
\<close>

theorem C6_get_status_after_update:
  "(\<forall>ops c disk'. run ops (SymbiCache_init disk f, disk) = Inr (c, disk')
        \<and> (\<forall>x\<in>set ops. \<not> updates_pair p k x)
      \<longrightarrow> get_status c p k = ''untracked'')
   \<and> (\<forall>node c r c1 ops d1 c2 d2. update node c p k = Inr (r, c1)
        \<and> run ops (c1, d1) = Inr (c2, d2) \<and> (\<forall>x\<in>set ops. \<not> updates_pair p k x)
      \<longrightarrow> get_status c2 p k =
            (if \<not> node_exists node then ''untracked'' else if r then ''changed'' else ''same''))"
proof (rule conjI)
  show "\<forall>ops c disk'. run ops (SymbiCache_init disk f, disk) = Inr (c, disk')
        \<and> (\<forall>x\<in>set ops. \<not> updates_pair p k x)
      \<longrightarrow> get_status c p k = ''untracked''"
  proof (intro allI impI, elim conjE)
    fix ops c disk'
    assume rn: "run ops (SymbiCache_init disk f, disk) = Inr (c, disk')"
      and nu: "\<forall>x\<in>set ops. \<not> updates_pair p k x"
    from run_status_frame [OF rn nu]
    have "get_status c p k = get_status (SymbiCache_init disk f) p k"
      by (simp add: get_status_stored)
    then show "get_status c p k = ''untracked''" by (simp add: get_status_init)
  qed
  show "\<forall>node c r c1 ops d1 c2 d2. update node c p k = Inr (r, c1)
        \<and> run ops (c1, d1) = Inr (c2, d2) \<and> (\<forall>x\<in>set ops. \<not> updates_pair p k x)
      \<longrightarrow> get_status c2 p k =
            (if \<not> node_exists node then ''untracked'' else if r then ''changed'' else ''same'')"
  proof (intro allI impI, elim conjE)
    fix node c r c1 ops d1 c2 d2
    assume u: "update node c p k = Inr (r, c1)"
      and rn: "run ops (c1, d1) = Inr (c2, d2)"
      and nu: "\<forall>x\<in>set ops. \<not> updates_pair p k x"
    from run_status_frame [OF rn nu]
    have eq: "get_status c2 p k = get_status c1 p k" by (simp add: get_status_stored)
    have "get_status c1 p k =
            (if \<not> node_exists node then ''untracked'' else if r then ''changed'' else ''same'')"
    proof (cases "node_exists node")
      case False
      from update_gone(2) [OF False u] False show ?thesis by simp
    next
      case True
      from update_cases [OF u] True
      have "status c1 = try_push_consumer_status (status c) p k (if r then ''changed'' else ''same'')"
        by auto
      then have "stored_status c1 p k = Some (if r then ''changed'' else ''same'')"
        by (simp add: stored_status_def status_at_push)
      with True show ?thesis by (simp add: get_status_stored)
    qed
    with eq show "get_status c2 p k =
            (if \<not> node_exists node then ''untracked'' else if r then ''changed'' else ''same'')"
      by simp
  qed
qed

text \<open>A directory tracked by one consumer and then by a second one, and saved.\<close>

theorem C6_witness:
  "run [OpUpdate dir_node ''build'' ''synth''] (SymbiCache_init no_files ''.symbicache'', no_files)
     = Inr (tracked_dir_cache, no_files)
   \<and> \<not> list_ex (updates_pair ''build'' ''place'') [OpUpdate dir_node ''build'' ''synth'']
   \<and> get_status tracked_dir_cache ''build'' ''place'' = ''untracked''
   \<and> update dir_node empty_cache ''build'' ''synth'' = Inr (True, tracked_dir_cache)
   \<and> run [OpUpdate dir_node ''build'' ''place'', OpSave] (tracked_dir_cache, no_files)
       = Inr (shared_dir_cache, save no_files shared_dir_cache)
   \<and> \<not> list_ex (updates_pair ''build'' ''synth'') [OpUpdate dir_node ''build'' ''place'', OpSave]
   \<and> node_exists dir_node
   \<and> get_status shared_dir_cache ''build'' ''synth'' = ''changed''"
proof -
  have r1: "run [OpUpdate dir_node ''build'' ''synth'']
              (SymbiCache_init no_files ''.symbicache'', no_files)
            = Inr (tracked_dir_cache, no_files)"
    by (simp add: update_eval fingerprint_def SymbiCache_init_def load_def no_files_def)
  have n1: "\<forall>x\<in>set [OpUpdate dir_node ''build'' ''synth'']. \<not> updates_pair ''build'' ''place'' x"
    by simp
  have u: "update dir_node empty_cache ''build'' ''synth'' = Inr (True, tracked_dir_cache)"
    by (simp add: update_eval fingerprint_def)
  have r2: "run [OpUpdate dir_node ''build'' ''place'', OpSave] (tracked_dir_cache, no_files)
       = Inr (shared_dir_cache, save no_files shared_dir_cache)"
    by (simp add: update_eval fingerprint_def)
  have n2: "\<forall>x\<in>set [OpUpdate dir_node ''build'' ''place'', OpSave].
              \<not> updates_pair ''build'' ''synth'' x"
    by simp
  have e: "node_exists dir_node" by (simp add: node_exists_def dir_node_def)
  have l1: "\<not> list_ex (updates_pair ''build'' ''place'') [OpUpdate dir_node ''build'' ''synth'']"
    by simp
  have l2: "\<not> list_ex (updates_pair ''build'' ''synth'')
               [OpUpdate dir_node ''build'' ''place'', OpSave]"
    by simp
  note inst = C6_get_status_after_update [of no_files "''.symbicache''" "''build''"]
  from inst [of "''place''", THEN conjunct1, rule_format, OF conjI [OF r1 n1]]
  have a: "get_status tracked_dir_cache ''build'' ''place'' = ''untracked''" .
  from inst [of "''synth''", THEN conjunct2, rule_format, OF conjI [OF u conjI [OF r2 n2]]] e
  have b: "get_status shared_dir_cache ''build'' ''synth'' = ''changed''" by simp
  from r1 l1 a u r2 l2 e b show ?thesis by (intro conjI)
qed

text \<open>
  Claim C7: for two distinct consumers, a call of \<^verbatim>\<open>update\<close> by the first that returns,
  on the same path or on another one and whatever it finds there, leaves the fingerprint
  and the status recorded for the second consumer and a path as they were, and
  \<^verbatim>\<open>get_status\<close> for the second answers as before.
\<close>

theorem C7_other_consumer_untouched:
  assumes "update node c p' a = Inr (r, c')" and "a \<noteq> b"
  shows "stored_hash c' p b = stored_hash c p b
       \<and> stored_status c' p b = stored_status c p b
       \<and> get_status c' p b = get_status c p b"
proof -
  from assms(2) have ne: "p \<noteq> p' \<or> b \<noteq> a" by simp
  from update_frame [OF assms(1) ne] show ?thesis
    by (simp add: get_status_stored)
qed

text \<open>A second consumer starts to track a directory that the first one tracks.\<close>

theorem C7_witness:
  "update dir_node tracked_dir_cache ''build'' ''place'' = Inr (True, shared_dir_cache)
   \<and> ''place'' \<noteq> ''synth''
   \<and> stored_hash shared_dir_cache ''build'' ''synth'' = stored_hash tracked_dir_cache ''build'' ''synth''
   \<and> stored_status shared_dir_cache ''build'' ''synth'' = stored_status tracked_dir_cache ''build'' ''synth''
   \<and> get_status shared_dir_cache ''build'' ''synth'' = ''changed''"
proof -
  have u: "update dir_node tracked_dir_cache ''build'' ''place'' = Inr (True, shared_dir_cache)"
    by (simp add: update_eval fingerprint_def)
  have n: "''place'' \<noteq> ''synth''" by simp
  have g: "get_status tracked_dir_cache ''build'' ''synth'' = ''changed''"
    by (simp add: get_status_def tracked_dir_cache_def)
  from C7_other_consumer_untouched [OF u n, where p = "''build''"] u n g
  show ?thesis by simp
qed

text \<open>
  Claim C8: a path whose last consumer is removed is removed from both the fingerprint and
  the status table, so that no dangling entry is kept.  A cache created on an absent file
  tracks a directory for one consumer; the directory is deleted and the consumer updates
  again: the status table is empty and the fingerprint table still holds the path.  When
  the directory is created again the next \<^verbatim>\<open>update\<close> meets the kept fingerprint and
  records \<^verbatim>\<open>'same'\<close>.
\<close>

theorem C8_dangling_fingerprint_entry:
  "run [OpUpdate dir_node ''build'' ''synth'', OpUpdate gone_node ''build'' ''synth'']
       (SymbiCache_init no_files ''.symbicache'', no_files)
   = Inr (\<lparr>hashes = PDict [(''build'', PDict [(''synth'', PInt 0)])],
           status = [],
           cachefile_path = ''.symbicache''\<rparr>, no_files)
   \<and> run [OpUpdate dir_node ''build'' ''synth'', OpUpdate gone_node ''build'' ''synth'',
           OpUpdate dir_node ''build'' ''synth'']
       (SymbiCache_init no_files ''.symbicache'', no_files)
   = Inr (\<lparr>hashes = PDict [(''build'', PDict [(''synth'', PInt 0)])],
           status = [(''build'', [(''synth'', ''same'')])],
           cachefile_path = ''.symbicache''\<rparr>, no_files)"
  by (simp add: update_def gone_node_def dir_node_def try_pop_consumer_def pop_status_def
      pop_hash_def dict_get_def fingerprint_def try_push_consumer_hash_def
      try_push_consumer_status_def SymbiCache_init_def load_def no_files_def)

text \<open>
  Claim C9: \<^verbatim>\<open>is_output_explicit\<close> is true exactly for the names given under
  \<^verbatim>\<open>produces\<close> and does not fail for a declared output that is not among them.  A
  stage declares the output \<^verbatim>\<open>log\<close>, the configuration gives no explicit path, the
  context is built with the path \<^verbatim>\<open>map_io\<close> computes: asking whether \<^verbatim>\<open>log\<close> is
  explicit raises \<^verbatim>\<open>AttributeError\<close>.
\<close>

theorem C9_is_output_explicit_raises:
  "ModuleContext_init decompose_depname no_resolution
     \<lparr>mod_name = ''synth'', mod_takes = [''sources''], mod_produces = [''log''],
      mod_values = [], map_io = default_log\<rparr>
     \<lparr>cfg_takes = [(''sources'', PStr ''top.v'')], cfg_values = [], cfg_produces = []\<rparr>
     ''share'' ''bin''
   = Inr \<lparr>ctx_module_name = ''synth'', ctx_takes = [(''sources'', PStr ''top.v'')],
          ctx_produces = [], ctx_values = [], ctx_outputs = [(''log'', PStr ''build/log'')],
          share = ''share'', bin = ''bin''\<rparr>
   \<and> is_output_explicit
       \<lparr>ctx_module_name = ''synth'', ctx_takes = [(''sources'', PStr ''top.v'')],
        ctx_produces = [], ctx_values = [], ctx_outputs = [(''log'', PStr ''build/log'')],
        share = ''share'', bin = ''bin''\<rparr> ''log''
     = Inl AttributeError"
  by (simp add: ModuleContext_init_def decompose_depname_def dict_get_def no_resolution_def
      dict_update_def default_log_def is_output_explicit_def Let_def)

text \<open>
  Claim C10: for a path that is no file, symbolic link or directory, whenever \<^verbatim>\<open>update\<close>
  returns, it returns true, \<^verbatim>\<open>get_status\<close> for the pair then returns \<^verbatim>\<open>'untracked'\<close>, and
  the status recorded for the pair is not \<^verbatim>\<open>'changed'\<close>.  On a cache state that is a
  table the call does return.
\<close>

theorem C10_vanished_path_is_untracked:
  assumes "\<not> node_exists node"
  shows "(\<forall>r c'. update node c p k = Inr (r, c') \<longrightarrow>
            r \<and> get_status c' p k = ''untracked'' \<and> stored_status c' p k \<noteq> Some ''changed'')
       \<and> (is_table (hashes c) \<longrightarrow> (\<exists>c'. update node c p k = Inr (True, c')))"
proof (rule conjI)
  show "\<forall>r c'. update node c p k = Inr (r, c') \<longrightarrow>
            r \<and> get_status c' p k = ''untracked'' \<and> stored_status c' p k \<noteq> Some ''changed''"
  proof (intro allI impI)
    fix r c'
    assume u: "update node c p k = Inr (r, c')"
    from update_gone [OF assms u]
    show "r \<and> get_status c' p k = ''untracked'' \<and> stored_status c' p k \<noteq> Some ''changed''"
      by simp
  qed
  show "is_table (hashes c) \<longrightarrow> (\<exists>c'. update node c p k = Inr (True, c'))"
  proof
    assume "is_table (hashes c)"
    from update_gone_total [OF assms this, of p k]
    show "\<exists>c'. update node c p k = Inr (True, c')" by blast
  qed
qed

text \<open>A tracked file is deleted and its consumer updates again.\<close>

theorem C10_witness:
  "\<not> node_exists gone_node
   \<and> update gone_node tracked_file_cache ''top.v'' ''synth'' = Inr (True, empty_cache)
   \<and> get_status empty_cache ''top.v'' ''synth'' = ''untracked''"
proof -
  have g: "\<not> node_exists gone_node" by (simp add: node_exists_def gone_node_def)
  have u: "update gone_node tracked_file_cache ''top.v'' ''synth'' = Inr (True, empty_cache)"
    by (simp add: update_eval)
  from C10_vanished_path_is_untracked [OF g, of tracked_file_cache "''top.v''" "''synth''"]
  have "\<forall>r c'. update gone_node tracked_file_cache ''top.v'' ''synth'' = Inr (r, c') \<longrightarrow>
            r \<and> get_status c' ''top.v'' ''synth'' = ''untracked''
              \<and> stored_status c' ''top.v'' ''synth'' \<noteq> Some ''changed''"
    by (rule conjunct1)
  from this [rule_format, OF u] g u show ?thesis by simp
qed

end
